theory Spec2Isabelle
  imports Complex_Main
begin

section \<open>Audio samples, chunks and errors\<close>

text \<open>
  A \<^verbatim>\<open>Float32Array\<close> element is a finite number, an infinity or NaN. The finite
  values are taken as reals: nothing in the capture hook computes with a sample, it only
  copies them.
\<close>

datatype sample = Finite real | PosInfinity | NegInfinity | NaN

fun is_finite :: "sample \<Rightarrow> bool" where
  "is_finite (Finite x) = True"
| "is_finite PosInfinity = False"
| "is_finite NegInfinity = False"
| "is_finite NaN = False"

type_synonym chunk = "sample list"

datatype error =
    DeviceUnavailableError
  | RangeError
  | AlreadyRecordingError
  | NoActiveSessionError
  | InvalidSampleError
  | EmptyCaptureError
  | InsufficientSamplesError
  | VectorDimensionMismatchError
  | ProfileNotFoundError
  | UndefinedSimilarityError
  | StoreError

section \<open>The capture hook \<^verbatim>\<open>useAudioCapture\<close>\<close>

text \<open>
  The hook keeps three refs to browser objects, the React state \<^verbatim>\<open>isRecording\<close> and
  \<^verbatim>\<open>lastResult\<close>, and the chunk buffer \<^verbatim>\<open>framesRef\<close>. The browser objects are mutable
  and live outside the hook, so the state also counts the streams whose tracks are live,
  the processors that are connected and the audio contexts that are open: a ref that is
  overwritten without releasing its object would leave a counter above zero.
  Inside \<^verbatim>\<open>start\<close> and \<^verbatim>\<open>finish\<close> the name \<^verbatim>\<open>isRecording\<close> is a constant of the
  render that made the callback, not the live state, and \<^verbatim>\<open>start\<close> awaits
  \<^verbatim>\<open>getUserMedia\<close> between its guard and its effects. The models of the two callbacks
  therefore take the value their closure holds as an argument. The guard has no effect of
  its own, so a call that passed it while the hook was idle and whose effects run only
  after another call has changed the state is the call with the value \<open>False\<close> at that
  later state.
\<close>

datatype media_stream = MediaStream
datatype script_processor = ScriptProcessorNode
datatype audio_context = AudioContext (ctx_sampleRate: nat)

record 'f voice_print =
  vp_vector :: "sample list"
  vp_features :: 'f

record 'f voice_capture_result =
  vector :: "sample list"
  features :: 'f
  raw :: "sample list"
  sampleRate :: nat

record 'f capture =
  isRecording :: bool
  framesRef :: "chunk list"
  mediaStreamRef :: "media_stream option"
  processorRef :: "script_processor option"
  audioContextRef :: "audio_context option"
  lastResult :: "'f voice_capture_result option"
  liveStreams :: nat
  connectedProcessors :: nat
  openContexts :: nat

definition initial :: "'f capture" where
  "initial = \<lparr> isRecording = False, framesRef = [], mediaStreamRef = None,
     processorRef = None, audioContextRef = None, lastResult = None,
     liveStreams = 0, connectedProcessors = 0, openContexts = 0 \<rparr>"

text \<open>\<^verbatim>\<open>ref.current?.release()\<close>: the object is released only when the ref is set.\<close>

definition release :: "'a option \<Rightarrow> nat \<Rightarrow> nat" where
  "release r n = (case r of None \<Rightarrow> n | Some _ \<Rightarrow> n - 1)"

definition stop :: "'f capture \<Rightarrow> 'f capture" where
  "stop s = s\<lparr>
     connectedProcessors := release (processorRef s) (connectedProcessors s),
     processorRef := None,
     liveStreams := release (mediaStreamRef s) (liveStreams s),
     openContexts := release (audioContextRef s) (openContexts s),
     audioContextRef := None,
     mediaStreamRef := None,
     isRecording := False \<rparr>"

text \<open>
  \<^verbatim>\<open>getUserMedia\<close> either rejects or grants a stream; the audio context made for it has a
  sample rate.
\<close>

datatype device = Denied | Granted nat

definition start_with ::
  "bool \<Rightarrow> device \<Rightarrow> 'f capture \<Rightarrow> (error + unit) \<times> 'f capture" where
  "start_with closure_isRecording dev s =
     (if closure_isRecording then (Inr (), s)
      else case dev of
        Denied \<Rightarrow> (Inl DeviceUnavailableError, s)
      | Granted rate \<Rightarrow>
          (Inr (), s\<lparr>
             liveStreams := liveStreams s + 1,
             openContexts := openContexts s + 1,
             audioContextRef := Some (AudioContext rate),
             mediaStreamRef := Some MediaStream,
             framesRef := [],
             connectedProcessors := connectedProcessors s + 1,
             processorRef := Some ScriptProcessorNode,
             isRecording := True \<rparr>))"

text \<open>
  The call made through the callback of the latest render, with no other call between
  its guard and its effects: the closure holds the state's \<^verbatim>\<open>isRecording\<close>.
\<close>

definition start :: "device \<Rightarrow> 'f capture \<Rightarrow> (error + unit) \<times> 'f capture" where
  "start dev s = start_with (isRecording s) dev s"

text \<open>The handler installed by \<^verbatim>\<open>start\<close>: it pushes a copy of the channel data.\<close>

definition onaudioprocess :: "chunk \<Rightarrow> 'f capture \<Rightarrow> 'f capture" where
  "onaudioprocess channelData s = s\<lparr> framesRef := framesRef s @ [channelData] \<rparr>"

text \<open>
  \<^verbatim>\<open>result.set(frame, offset)\<close> on a typed array raises a \<^verbatim>\<open>RangeError\<close> when the frame
  does not fit; otherwise it overwrites the elements from \<^verbatim>\<open>offset\<close> on.
\<close>

definition typed_set :: "sample list \<Rightarrow> chunk \<Rightarrow> nat \<Rightarrow> error + sample list" where
  "typed_set result frame offset =
     (if offset + length frame > length result then Inl RangeError
      else Inr (take offset result @ frame @ drop (offset + length frame) result))"

text \<open>The \<^verbatim>\<open>forEach\<close> loop of \<^verbatim>\<open>finish\<close>, with its running \<^verbatim>\<open>offset\<close>.\<close>

fun set_frames :: "chunk list \<Rightarrow> nat \<Rightarrow> sample list \<Rightarrow> error + sample list" where
  "set_frames [] offset result = Inr result"
| "set_frames (frame # frames) offset result =
     (case typed_set result frame offset of
        Inl e \<Rightarrow> Inl e
      | Inr result' \<Rightarrow> set_frames frames (offset + length frame) result')"

definition totalLength :: "chunk list \<Rightarrow> nat" where
  "totalLength frames = foldl (\<lambda>acc frame. acc + length frame) 0 frames"

text \<open>The waveform that \<^verbatim>\<open>finish\<close> assembles from the buffer.\<close>

definition assemble :: "chunk list \<Rightarrow> error + sample list" where
  "assemble frames = set_frames frames 0 (replicate (totalLength frames) (Finite 0))"

text \<open>
  \<^verbatim>\<open>computeVoicePrint\<close> lives in \<^verbatim>\<open>lib/audio/voiceprint\<close>; \<^verbatim>\<open>finish\<close> takes it as a
  parameter. An exception it throws leaves \<^verbatim>\<open>finish\<close> at that point: the processor and
  the stream are released already, the context is still open and \<^verbatim>\<open>isRecording\<close> is
  still set.
\<close>

definition finish_with ::
  "bool \<Rightarrow> (sample list \<Rightarrow> error + 'f voice_print) \<Rightarrow> 'f capture
     \<Rightarrow> (error + 'f voice_capture_result option) \<times> 'f capture" where
  "finish_with closure_isRecording computeVoicePrint s =
     (if \<not> closure_isRecording then (Inr None, s)
      else case audioContextRef s of
        None \<Rightarrow> (Inr None, stop s)
      | Some audioContext \<Rightarrow>
          (let s1 = s\<lparr>
                 connectedProcessors := release (processorRef s) (connectedProcessors s),
                 processorRef := None,
                 liveStreams := release (mediaStreamRef s) (liveStreams s),
                 mediaStreamRef := None \<rparr>
           in case assemble (framesRef s1) of
                Inl e \<Rightarrow> (Inl e, s1)
              | Inr result \<Rightarrow>
                  (case computeVoicePrint result of
                     Inl e \<Rightarrow> (Inl e, s1)
                   | Inr voicePrint \<Rightarrow>
                       (let payload = \<lparr> vector = vp_vector voicePrint,
                              features = vp_features voicePrint,
                              raw = result,
                              sampleRate = ctx_sampleRate audioContext \<rparr>
                        in (Inr (Some payload),
                            s1\<lparr> lastResult := Some payload,
                                openContexts := openContexts s1 - 1,
                                audioContextRef := None,
                                isRecording := False \<rparr>)))))"

text \<open>The call made through the callback of the latest render.\<close>

definition finish ::
  "(sample list \<Rightarrow> error + 'f voice_print) \<Rightarrow> 'f capture
     \<Rightarrow> (error + 'f voice_capture_result option) \<times> 'f capture" where
  "finish computeVoicePrint s = finish_with (isRecording s) computeVoicePrint s"

text \<open>The chunks of one session, delivered to the handler in arrival order.\<close>

fun pushChunks :: "chunk list \<Rightarrow> 'f capture \<Rightarrow> 'f capture" where
  "pushChunks [] s = s"
| "pushChunks (c # cs) s = pushChunks cs (onaudioprocess c s)"

text \<open>
  Modelled from the spec: \<^verbatim>\<open>computeVoicePrint\<close> (\<^verbatim>\<open>lib/audio/voiceprint\<close> is not under
  src/). Section 4.2 gives its two guards: a zero-length waveform fails with
  \<^verbatim>\<open>EmptyCaptureError\<close>, a waveform with fewer samples than one frame fails with
  \<^verbatim>\<open>InsufficientSamplesError\<close>. The frame size and the numeric pipeline behind the
  guards are parameters.
\<close>

definition computeVoicePrint ::
  "nat \<Rightarrow> (sample list \<Rightarrow> 'f voice_print) \<Rightarrow> sample list \<Rightarrow> error + 'f voice_print" where
  "computeVoicePrint frameSize pipeline waveform =
     (if waveform = [] then Inl EmptyCaptureError
      else if length waveform < frameSize then Inl InsufficientSamplesError
      else Inr (pipeline waveform))"

text \<open>
  A stand-in for the numeric pipeline, to run the hook on concrete inputs: the vector is
  the waveform itself and the features are its length.
\<close>

definition echo_pipeline :: "sample list \<Rightarrow> nat voice_print" where
  "echo_pipeline waveform = \<lparr> vp_vector = waveform, vp_features = length waveform \<rparr>"

definition echo_extractor :: "sample list \<Rightarrow> error + nat voice_print" where
  "echo_extractor = computeVoicePrint 2 echo_pipeline"


subsection \<open>Runs of the hook\<close>

text \<open>
  A call of \<^verbatim>\<open>start\<close> or \<^verbatim>\<open>finish\<close> carries the value of \<^verbatim>\<open>isRecording\<close> that its
  closure holds, which may be stale; a chunk may come from any processor that is still
  connected.
\<close>

datatype op = Start bool device | Chunk chunk | Finish bool | Stop

datatype 'f outcome =
    Started "error + unit"
  | Pushed
  | Finished "error + 'f voice_capture_result option"
  | Stopped

fun step ::
  "(sample list \<Rightarrow> error + 'f voice_print) \<Rightarrow> op \<Rightarrow> 'f capture \<Rightarrow> 'f outcome \<times> 'f capture" where
  "step cvp (Start seen dev) s =
     (Started (fst (start_with seen dev s)), snd (start_with seen dev s))"
| "step cvp (Chunk c) s = (Pushed, onaudioprocess c s)"
| "step cvp (Finish seen) s =
     (Finished (fst (finish_with seen cvp s)), snd (finish_with seen cvp s))"
| "step cvp Stop s = (Stopped, stop s)"

fun run ::
  "(sample list \<Rightarrow> error + 'f voice_print) \<Rightarrow> op list \<Rightarrow> 'f capture
     \<Rightarrow> 'f outcome list \<times> 'f capture" where
  "run cvp [] s = ([], s)"
| "run cvp (x # xs) s =
     (let (out, s') = step cvp x s; (outs, s'') = run cvp xs s' in (out # outs, s''))"

text \<open>
  An operation is current in a state when its closure holds the state's
  \<^verbatim>\<open>isRecording\<close>. The states reached by current operations only are those of runs in
  which every call comes from the latest render and none overlaps another.
\<close>

fun current :: "op \<Rightarrow> 'f capture \<Rightarrow> bool" where
  "current (Start seen dev) s = (seen = isRecording s)"
| "current (Chunk c) s = True"
| "current (Finish seen) s = (seen = isRecording s)"
| "current Stop s = True"

inductive sequential :: "(sample list \<Rightarrow> error + 'f voice_print) \<Rightarrow> 'f capture \<Rightarrow> bool"
  for cvp :: "sample list \<Rightarrow> error + 'f voice_print" where
  sequential_initial: "sequential cvp initial"
| sequential_step: "sequential cvp s \<Longrightarrow> current x s \<Longrightarrow> sequential cvp (snd (step cvp x s))"

text \<open>
  Every ref that is set holds the one live object of its kind, and an idle hook holds
  none. Overlapping calls of \<^verbatim>\<open>start\<close> break this: the second overwrites the refs of
  the first, whose stream, processor and context stay live with no ref to them.
\<close>

definition held :: "'a option \<Rightarrow> nat" where
  "held r = (case r of None \<Rightarrow> 0 | Some _ \<Rightarrow> 1)"

definition capture_inv :: "'f capture \<Rightarrow> bool" where
  "capture_inv s \<longleftrightarrow>
     liveStreams s = held (mediaStreamRef s) \<and>
     connectedProcessors s = held (processorRef s) \<and>
     openContexts s = held (audioContextRef s) \<and>
     (isRecording s \<or>
        (mediaStreamRef s = None \<and> processorRef s = None \<and> audioContextRef s = None))"

section \<open>The HTTP routes\<close>

subsection \<open>Request bodies and the zod schemas\<close>

datatype json =
    JNull
  | JBool bool
  | JNum real
  | JStr string
  | JArr "json list"
  | JObj "(string \<times> json) list"

text \<open>Of a key that \<^verbatim>\<open>JSON.parse\<close> meets twice, the last value stays.\<close>

definition field :: "string \<Rightarrow> (string \<times> json) list \<Rightarrow> json option" where
  "field k kvs = map_of (rev kvs) k"

fun z_string :: "json \<Rightarrow> string option" where
  "z_string (JStr s) = Some s"
| "z_string _ = None"

fun z_number :: "json \<Rightarrow> real option" where
  "z_number (JNum x) = Some x"
| "z_number _ = None"

definition z_number_min_max :: "real \<Rightarrow> real \<Rightarrow> json \<Rightarrow> real option" where
  "z_number_min_max lo hi j =
     (case z_number j of
        None \<Rightarrow> None
      | Some x \<Rightarrow> if lo \<le> x \<and> x \<le> hi then Some x else None)"

fun z_array :: "(json \<Rightarrow> 'a option) \<Rightarrow> json \<Rightarrow> 'a list option" where
  "z_array item (JArr js) = those (map item js)"
| "z_array item _ = None"

definition z_required :: "(json \<Rightarrow> 'a option) \<Rightarrow> json option \<Rightarrow> 'a option" where
  "z_required item v = (case v of None \<Rightarrow> None | Some j \<Rightarrow> item j)"

definition z_optional :: "(json \<Rightarrow> 'a option) \<Rightarrow> json option \<Rightarrow> 'a option option" where
  "z_optional item v = (case v of None \<Rightarrow> Some None | Some j \<Rightarrow> map_option Some (item j))"

definition z_default :: "(json \<Rightarrow> 'a option) \<Rightarrow> 'a \<Rightarrow> json option \<Rightarrow> 'a option" where
  "z_default item d v = (case v of None \<Rightarrow> Some d | Some j \<Rightarrow> item j)"

record register_data =
  reg_contactId :: string
  reg_vector :: "real list"
  reg_recordingUrl :: "string option"
  reg_modelVersion :: string

definition register_schema :: "json \<Rightarrow> register_data option" where
  "register_schema body =
     (case body of
        JObj kvs \<Rightarrow>
          (case (z_required z_string (field ''contactId'' kvs),
                 z_required (z_array z_number) (field ''vector'' kvs),
                 z_optional z_string (field ''recordingUrl'' kvs),
                 z_default z_string ''mfcc-v1'' (field ''modelVersion'' kvs)) of
             (Some c, Some v, Some r, Some m) \<Rightarrow>
               Some \<lparr> reg_contactId = c, reg_vector = v,
                      reg_recordingUrl = r, reg_modelVersion = m \<rparr>
           | _ \<Rightarrow> None)
      | _ \<Rightarrow> None)"

record verify_data =
  ver_contactId :: string
  ver_vector :: "real list"
  ver_threshold :: "real option"

definition verify_schema :: "json \<Rightarrow> verify_data option" where
  "verify_schema body =
     (case body of
        JObj kvs \<Rightarrow>
          (case (z_required z_string (field ''contactId'' kvs),
                 z_required (z_array z_number) (field ''vector'' kvs),
                 z_optional (z_number_min_max 0 1) (field ''threshold'' kvs)) of
             (Some c, Some v, Some t) \<Rightarrow>
               Some \<lparr> ver_contactId = c, ver_vector = v, ver_threshold = t \<rparr>
           | _ \<Rightarrow> None)
      | _ \<Rightarrow> None)"

subsection \<open>The store\<close>

record voice_profile =
  identityId :: string
  profile_vector :: "real list"
  profile_modelVersion :: string
  createdAt :: nat

record 'c db =
  contacts :: "string \<Rightarrow> 'c option"
  voiceProfiles :: "string \<Rightarrow> voice_profile option"

text \<open>
  Modelled from the spec: \<^verbatim>\<open>storeVoiceProfile\<close> (\<^verbatim>\<open>lib/voice\<close> is not under src/).
  Section 4.3: \<^verbatim>\<open>save(identityId, vector, modelVersion)\<close> returns the profile and replaces
  any profile the identity had; the creation time is the parameter \<open>now\<close>.
\<close>

definition storeVoiceProfile ::
  "nat \<Rightarrow> register_data \<Rightarrow> 'c db \<Rightarrow> (error + voice_profile) \<times> 'c db" where
  "storeVoiceProfile now d store =
     (let profile = \<lparr> identityId = reg_contactId d, profile_vector = reg_vector d,
            profile_modelVersion = reg_modelVersion d, createdAt = now \<rparr>
      in (Inr profile,
          store\<lparr> voiceProfiles := (voiceProfiles store)(reg_contactId d \<mapsto> profile) \<rparr>))"

subsection \<open>\<^verbatim>\<open>POST /api/voice/register\<close>\<close>

datatype 'a response_body = ZodError | ErrorBody string | Payload 'a

datatype 'a response = Response (status: nat) (body: "'a response_body")

text \<open>
  The route takes \<^verbatim>\<open>storeVoiceProfile\<close> as the parameter \<open>save\<close>; an exception of it is
  caught and answered with status 500.
\<close>

definition POST_register ::
  "(register_data \<Rightarrow> 'c db \<Rightarrow> (error + voice_profile) \<times> 'c db) \<Rightarrow> 'c db \<Rightarrow> json
     \<Rightarrow> voice_profile response \<times> 'c db" where
  "POST_register save store request =
     (case register_schema request of
        None \<Rightarrow> (Response 400 ZodError, store)
      | Some parsed \<Rightarrow>
          (case contacts store (reg_contactId parsed) of
             None \<Rightarrow> (Response 404 (ErrorBody ''Contact not found''), store)
           | Some contact \<Rightarrow>
               (case save parsed store of
                  (Inr profile, store') \<Rightarrow> (Response 200 (Payload profile), store')
                | (Inl e, store') \<Rightarrow>
                    (Response 500 (ErrorBody ''Failed to register voice profile''), store'))))"

subsection \<open>The verifier\<close>

record verification_result =
  similarity :: real
  threshold :: real
  verified :: bool

text \<open>
  Modelled from the spec: \<^verbatim>\<open>verify\<close> and \<^verbatim>\<open>verifyVoiceProfile\<close> (\<^verbatim>\<open>lib/voice\<close> is not
  under src/). Section 4.4: vectors of different lengths fail with
  \<^verbatim>\<open>VectorDimensionMismatchError\<close>; the similarity is the cosine similarity clamped to
  [-1, 1]; \<^verbatim>\<open>verified = similarity >= threshold\<close>; the threshold defaults to 0.85 and is
  echoed. Section 7: a score that would not be a finite number (the quotient of the cosine
  when a vector has norm zero) is a typed error, not a value. Numbers are reals.
\<close>

definition default_threshold :: real where
  "default_threshold = 85 / 100"

fun dot :: "real list \<Rightarrow> real list \<Rightarrow> real" where
  "dot (x # xs) (y # ys) = x * y + dot xs ys"
| "dot _ _ = 0"

definition norm2 :: "real list \<Rightarrow> real" where
  "norm2 a = sqrt (dot a a)"

definition cosine_similarity :: "real list \<Rightarrow> real list \<Rightarrow> real" where
  "cosine_similarity a b = dot a b / (norm2 a * norm2 b)"

definition clamp :: "real \<Rightarrow> real" where
  "clamp x = max (- 1) (min 1 x)"

definition verify ::
  "real list \<Rightarrow> voice_profile \<Rightarrow> real option \<Rightarrow> error + verification_result" where
  "verify candidateVector storedProfile thresholdArg =
     (if length candidateVector \<noteq> length (profile_vector storedProfile)
        then Inl VectorDimensionMismatchError
      else if norm2 candidateVector * norm2 (profile_vector storedProfile) = 0
        then Inl UndefinedSimilarityError
      else
        (let t = (case thresholdArg of None \<Rightarrow> default_threshold | Some t \<Rightarrow> t);
             sim = clamp (cosine_similarity candidateVector (profile_vector storedProfile))
         in Inr \<lparr> similarity = sim, threshold = t, verified = (sim \<ge> t) \<rparr>))"

definition verifyVoiceProfile :: "verify_data \<Rightarrow> 'c db \<Rightarrow> error + verification_result" where
  "verifyVoiceProfile d store =
     (case voiceProfiles store (ver_contactId d) of
        None \<Rightarrow> Inl ProfileNotFoundError
      | Some profile \<Rightarrow> verify (ver_vector d) profile (ver_threshold d))"

subsection \<open>\<^verbatim>\<open>POST /api/voice/verify\<close>\<close>

definition POST_verify ::
  "(verify_data \<Rightarrow> 'c db \<Rightarrow> error + verification_result) \<Rightarrow> 'c db \<Rightarrow> json
     \<Rightarrow> verification_result response" where
  "POST_verify verifyFn store request =
     (case verify_schema request of
        None \<Rightarrow> Response 400 ZodError
      | Some parsed \<Rightarrow>
          (case verifyFn parsed store of
             Inr result \<Rightarrow> Response 200 (Payload result)
           | Inl e \<Rightarrow> Response 500 (ErrorBody ''Failed to verify voice profile'')))"

section \<open>Waveform assembly\<close>

lemma totalLength_acc:
  "foldl (\<lambda>acc frame. acc + length frame) n frames = n + sum_list (map length frames)"
  by (induction frames arbitrary: n) simp_all

lemma totalLength_sum: "totalLength frames = sum_list (map length frames)"
  by (simp add: totalLength_def totalLength_acc)

lemma set_frames_fills:
  "length pre = offset \<Longrightarrow>
   set_frames frames offset (pre @ replicate (sum_list (map length frames)) z @ rest)
     = Inr (pre @ concat frames @ rest)"
proof (induction frames arbitrary: pre offset)
  case Nil
  then show ?case by simp
next
  case (Cons frame frames)
  let ?n = "sum_list (map length frames)"
  have written: "typed_set (pre @ replicate (length frame + ?n) z @ rest) frame offset
      = Inr ((pre @ frame) @ replicate ?n z @ rest)"
    using Cons.prems by (simp add: typed_set_def replicate_add)
  have "set_frames frames (offset + length frame) ((pre @ frame) @ replicate ?n z @ rest)
      = Inr ((pre @ frame) @ concat frames @ rest)"
    using Cons.prems by (intro Cons.IH) simp
  with written show ?case by simp
qed

lemma assemble_concat: "assemble frames = Inr (concat frames)"
  using set_frames_fills [of "[]" 0 frames "Finite 0" "[]"]
  by (simp add: assemble_def totalLength_sum)

lemma concat_nth_chunk:
  assumes "j < length frames" and "i < length (frames ! j)"
  shows "concat frames ! (sum_list (map length (take j frames)) + i) = frames ! j ! i"
proof -
  have "frames = take j frames @ (frames ! j) # drop (Suc j) frames"
    using assms(1) by (simp add: id_take_nth_drop)
  then have "concat frames
      = concat (take j frames) @ (frames ! j) @ concat (drop (Suc j) frames)"
    by (metis concat.simps(2) concat_append)
  moreover have "length (concat (take j frames)) = sum_list (map length (take j frames))"
    by (simp add: length_concat)
  ultimately show ?thesis
    using assms(2) by (simp add: nth_append)
qed

section \<open>The state machine of the hook\<close>

lemma release_held: "n = held r \<Longrightarrow> release r n = 0"
  by (cases r) (simp_all add: release_def held_def)

lemma release_minus_held: "release r n = n - held r"
  by (cases r) (simp_all add: release_def held_def)

lemma capture_inv_initial: "capture_inv initial"
  by (simp add: capture_inv_def initial_def held_def)

lemma capture_inv_stop: "capture_inv s \<Longrightarrow> capture_inv (stop s)"
  by (simp add: capture_inv_def stop_def release_held held_def)

lemma capture_inv_start: "capture_inv s \<Longrightarrow> capture_inv (snd (start dev s))"
  by (cases dev) (auto simp: capture_inv_def start_def start_with_def held_def)

lemma capture_inv_onaudioprocess: "capture_inv s \<Longrightarrow> capture_inv (onaudioprocess c s)"
  by (simp add: capture_inv_def onaudioprocess_def)

lemma finish_with_unseen: "finish_with False cvp s = (Inr None, s)"
  by (simp add: finish_with_def)

lemma finish_with_no_context:
  "audioContextRef s = None \<Longrightarrow> finish_with True cvp s = (Inr None, stop s)"
  by (simp add: finish_with_def)

lemma finish_idle: "\<not> isRecording s \<Longrightarrow> finish cvp s = (Inr None, s)"
  by (simp add: finish_def finish_with_unseen)

lemma finish_no_context:
  "isRecording s \<Longrightarrow> audioContextRef s = None \<Longrightarrow> finish cvp s = (Inr None, stop s)"
  by (simp add: finish_def finish_with_no_context)

lemma finish_raises:
  assumes "isRecording s" and "audioContextRef s = Some ctx"
    and "cvp (concat (framesRef s)) = Inl e"
  shows "finish cvp s = (Inl e, s\<lparr>
           connectedProcessors := release (processorRef s) (connectedProcessors s),
           processorRef := None,
           liveStreams := release (mediaStreamRef s) (liveStreams s),
           mediaStreamRef := None \<rparr>)"
  using assms by (simp add: finish_def finish_with_def assemble_concat)

lemma finish_returns:
  assumes "isRecording s" and "audioContextRef s = Some ctx"
    and "cvp (concat (framesRef s)) = Inr vp"
  shows "finish cvp s =
     (Inr (Some \<lparr> vector = vp_vector vp, features = vp_features vp,
                   raw = concat (framesRef s), sampleRate = ctx_sampleRate ctx \<rparr>),
      s\<lparr> connectedProcessors := release (processorRef s) (connectedProcessors s),
         processorRef := None,
         liveStreams := release (mediaStreamRef s) (liveStreams s),
         mediaStreamRef := None,
         lastResult := Some \<lparr> vector = vp_vector vp, features = vp_features vp,
                   raw = concat (framesRef s), sampleRate = ctx_sampleRate ctx \<rparr>,
         openContexts := openContexts s - 1,
         audioContextRef := None,
         isRecording := False \<rparr>)"
  using assms by (simp add: finish_def finish_with_def assemble_concat Let_def)

lemma capture_inv_finish:
  assumes "capture_inv s"
  shows "capture_inv (snd (finish cvp s))"
proof (cases "isRecording s")
  case False
  with assms show ?thesis by (simp add: finish_idle)
next
  case True
  show ?thesis
  proof (cases "audioContextRef s")
    case None
    with True assms show ?thesis by (simp add: finish_no_context capture_inv_stop)
  next
    case (Some ctx)
    show ?thesis
    proof (cases "cvp (concat (framesRef s))")
      case (Inl e)
      from assms True show ?thesis
        using finish_raises [of s ctx cvp e, OF True Some Inl]
        by (simp add: capture_inv_def release_held held_def)
    next
      case (Inr vp)
      from assms Some show ?thesis
        using finish_returns [of s ctx cvp vp, OF True Some Inr]
        by (simp add: capture_inv_def release_held held_def)
    qed
  qed
qed

lemma capture_inv_step:
  assumes "capture_inv s" and "current x s"
  shows "capture_inv (snd (step cvp x s))"
proof (cases x)
  case (Start seen dev)
  with assms(2) have "start_with seen dev s = start dev s"
    by (simp add: start_def)
  with Start assms(1) show ?thesis by (simp add: capture_inv_start)
next
  case (Chunk c)
  with assms(1) show ?thesis by (simp add: capture_inv_onaudioprocess)
next
  case (Finish seen)
  with assms(2) have "finish_with seen cvp s = finish cvp s"
    by (simp add: finish_def)
  with Finish assms(1) show ?thesis by (simp add: capture_inv_finish)
next
  case Stop
  with assms(1) show ?thesis by (simp add: capture_inv_stop)
qed

lemma sequential_inv: "sequential cvp s \<Longrightarrow> capture_inv s"
  by (induction rule: sequential.induct) (simp_all add: capture_inv_initial capture_inv_step)

lemma stop_frames_update: "stop (s\<lparr>framesRef := fs\<rparr>) = (stop s)\<lparr>framesRef := fs\<rparr>"
  by (simp add: stop_def)

lemma stop_stop: "stop (stop s) = stop s"
  by (simp add: stop_def release_def)

lemma finish_with_stopped: "finish_with seen cvp (stop s) = (Inr None, stop s)"
proof (cases seen)
  case True
  have "audioContextRef (stop s) = None" by (simp add: stop_def)
  with True show ?thesis by (simp add: finish_with_no_context stop_stop)
next
  case False
  then show ?thesis by (simp add: finish_with_unseen)
qed

text \<open>
  While \<^verbatim>\<open>audioContextRef\<close> is null no operation reads the buffer, whatever value the
  closures hold: \<^verbatim>\<open>finish\<close> returns before it reaches the frames, and the effects of
  \<^verbatim>\<open>start\<close> replace the buffer.
\<close>

lemma step_stale_frames:
  assumes "audioContextRef s = None"
  shows "fst (step cvp x (s\<lparr>framesRef := fs\<rparr>)) = fst (step cvp x s) \<and>
         (snd (step cvp x (s\<lparr>framesRef := fs\<rparr>)) = snd (step cvp x s) \<or>
          audioContextRef (snd (step cvp x s)) = None \<and>
          (\<exists>fs'. snd (step cvp x (s\<lparr>framesRef := fs\<rparr>))
                   = (snd (step cvp x s))\<lparr>framesRef := fs'\<rparr>))"
proof (cases x)
  case (Start seen dev)
  with assms show ?thesis
    by (cases dev; cases seen) (auto simp: start_with_def)
next
  case (Chunk c)
  with assms show ?thesis by (auto simp: onaudioprocess_def)
next
  case (Finish seen)
  show ?thesis
  proof (cases seen)
    case False
    with Finish assms show ?thesis by (auto simp: finish_with_unseen)
  next
    case True
    have "audioContextRef (stop s) = None" by (simp add: stop_def)
    moreover have "\<exists>fs'. stop (s\<lparr>framesRef := fs\<rparr>) = (stop s)\<lparr>framesRef := fs'\<rparr>"
      using stop_frames_update by blast
    ultimately show ?thesis
      using Finish True assms by (simp add: finish_with_no_context)
  qed
next
  case Stop
  have "audioContextRef (stop s) = None" by (simp add: stop_def)
  moreover have "\<exists>fs'. stop (s\<lparr>framesRef := fs\<rparr>) = (stop s)\<lparr>framesRef := fs'\<rparr>"
    using stop_frames_update by blast
  ultimately show ?thesis using Stop by simp
qed

lemma run_stale_frames:
  "audioContextRef s = None \<Longrightarrow>
     fst (run cvp ops (s\<lparr>framesRef := fs\<rparr>)) = fst (run cvp ops s)"
proof (induction ops arbitrary: s fs)
  case Nil
  show ?case by simp
next
  case (Cons x xs)
  from step_stale_frames [OF Cons.prems, of cvp x fs]
  have out: "fst (step cvp x (s\<lparr>framesRef := fs\<rparr>)) = fst (step cvp x s)"
    and next_state: "snd (step cvp x (s\<lparr>framesRef := fs\<rparr>)) = snd (step cvp x s) \<or>
        audioContextRef (snd (step cvp x s)) = None \<and>
        (\<exists>fs'. snd (step cvp x (s\<lparr>framesRef := fs\<rparr>))
                 = (snd (step cvp x s))\<lparr>framesRef := fs'\<rparr>)"
    by simp_all
  from next_state
  have "fst (run cvp xs (snd (step cvp x (s\<lparr>framesRef := fs\<rparr>))))
      = fst (run cvp xs (snd (step cvp x s)))"
  proof
    assume "snd (step cvp x (s\<lparr>framesRef := fs\<rparr>)) = snd (step cvp x s)"
    then show ?thesis by simp
  next
    assume "audioContextRef (snd (step cvp x s)) = None \<and>
        (\<exists>fs'. snd (step cvp x (s\<lparr>framesRef := fs\<rparr>))
                 = (snd (step cvp x s))\<lparr>framesRef := fs'\<rparr>)"
    then show ?thesis using Cons.IH by auto
  qed
  with out show ?case
    by (simp add: split_beta Let_def)
qed

lemma pushChunks_frames: "framesRef (pushChunks cs s) = framesRef s @ cs"
  by (induction cs arbitrary: s) (simp_all add: onaudioprocess_def)

lemma pushChunks_isRecording: "isRecording (pushChunks cs s) = isRecording s"
  by (induction cs arbitrary: s) (simp_all add: onaudioprocess_def)

lemma pushChunks_audioContextRef: "audioContextRef (pushChunks cs s) = audioContextRef s"
  by (induction cs arbitrary: s) (simp_all add: onaudioprocess_def)

lemma started_session:
  assumes "\<not> isRecording s0"
  shows "isRecording (pushChunks chunks (snd (start (Granted rate) s0)))"
    and "audioContextRef (pushChunks chunks (snd (start (Granted rate) s0)))
           = Some (AudioContext rate)"
    and "framesRef (pushChunks chunks (snd (start (Granted rate) s0))) = chunks"
  using assms
  by (simp_all add: pushChunks_isRecording pushChunks_audioContextRef pushChunks_frames
        start_def start_with_def)

lemma finish_session:
  assumes "\<not> isRecording s0"
  shows "fst (finish cvp (pushChunks chunks (snd (start (Granted rate) s0)))) =
     (case cvp (concat chunks) of
        Inl e \<Rightarrow> Inl e
      | Inr vp \<Rightarrow> Inr (Some \<lparr> vector = vp_vector vp, features = vp_features vp,
                              raw = concat chunks, sampleRate = rate \<rparr>))"
proof (cases "cvp (concat chunks)")
  case (Inl e)
  then show ?thesis
    using finish_raises [of "pushChunks chunks (snd (start (Granted rate) s0))"
        "AudioContext rate" cvp e] started_session [OF assms, of chunks rate]
    by simp
next
  case (Inr vp)
  then show ?thesis
    using finish_returns [of "pushChunks chunks (snd (start (Granted rate) s0))"
        "AudioContext rate" cvp vp] started_session [OF assms, of chunks rate]
    by simp
qed

section \<open>The schema and the routes\<close>

lemma those_numbers: "those (map (z_number \<circ> JNum) v) = Some v"
  by (induction v) simp_all

lemma register_schema_accepts:
  assumes "field ''contactId'' kvs = Some (JStr cid)"
    and "field ''vector'' kvs = Some (JArr (map JNum v))"
    and "field ''recordingUrl'' kvs = map_option JStr url"
    and "field ''modelVersion'' kvs = map_option JStr mv"
  shows "register_schema (JObj kvs) =
     Some \<lparr> reg_contactId = cid, reg_vector = v, reg_recordingUrl = url,
            reg_modelVersion = (case mv of None \<Rightarrow> ''mfcc-v1'' | Some m \<Rightarrow> m) \<rparr>"
  using assms
  by (cases url; cases mv)
    (simp_all add: register_schema_def z_required_def z_optional_def z_default_def
      those_numbers)

lemma POST_register_unknown:
  assumes "register_schema request = Some parsed"
    and "contacts store (reg_contactId parsed) = None"
  shows "POST_register save store request
     = (Response 404 (ErrorBody ''Contact not found''), store)"
  using assms by (simp add: POST_register_def)

lemma POST_register_known:
  assumes "register_schema request = Some parsed"
    and "contacts store (reg_contactId parsed) = Some contact"
  shows "POST_register save store request =
     (case save parsed store of
        (Inr profile, store') \<Rightarrow> (Response 200 (Payload profile), store')
      | (Inl e, store') \<Rightarrow>
          (Response 500 (ErrorBody ''Failed to register voice profile''), store'))"
  using assms by (simp add: POST_register_def)

lemma verifyVoiceProfile_found:
  "voiceProfiles store (ver_contactId d) = Some p \<Longrightarrow>
     verifyVoiceProfile d store = verify (ver_vector d) p (ver_threshold d)"
  by (simp add: verifyVoiceProfile_def)

lemma POST_verify_result:
  assumes "verify_schema request = Some parsed"
  shows "POST_verify verifyFn store request =
     (case verifyFn parsed store of
        Inr result \<Rightarrow> Response 200 (Payload result)
      | Inl e \<Rightarrow> Response 500 (ErrorBody ''Failed to verify voice profile''))"
  using assms by (simp add: POST_verify_def)

lemma POST_verify_threshold_range:
  assumes "field ''threshold'' kvs = Some (JNum x)" and "x < 0 \<or> 1 < x"
  shows "POST_verify verifyFn store (JObj kvs) = Response 400 ZodError"
  using assms
  by (auto simp: POST_verify_def verify_schema_def z_optional_def z_number_min_max_def
      split: option.splits prod.splits)

section \<open>Cosine similarity\<close>


lemma dot_self_nonneg: "0 \<le> dot a a"
  by (induction a) simp_all

lemma dot_self_zero_iff: "dot a a = 0 \<longleftrightarrow> (\<forall>x \<in> set a. x = 0)"
proof (induction a)
  case Nil
  show ?case by simp
next
  case (Cons x xs)
  have "x * x + dot xs xs = 0 \<longleftrightarrow> x * x = 0 \<and> dot xs xs = 0"
    using dot_self_nonneg [of xs] by (simp add: add_nonneg_eq_0_iff)
  with Cons show ?case by simp
qed

lemma norm2_zero_iff: "norm2 a = 0 \<longleftrightarrow> (\<forall>x \<in> set a. x = 0)"
  by (simp add: norm2_def dot_self_zero_iff)


text \<open>
  Over the reals the cosine of two vectors lies in [-1, 1] (Cauchy-Schwarz), so the clamp
  changes nothing there; it matters only for rounding.
\<close>

lemma am_gm_step:
  fixes u v w :: real
  assumes "0 \<le> u" and "0 \<le> v" and "w * w \<le> u * v"
  shows "2 * w \<le> u + v"
proof (rule power2_le_imp_le)
  have "(2 * w)\<^sup>2 = 4 * (w * w)"
    by (simp add: power2_eq_square)
  also have "\<dots> \<le> 4 * (u * v)"
    using assms(3) by simp
  also have "\<dots> \<le> (u + v)\<^sup>2"
  proof -
    have "0 \<le> (u - v)\<^sup>2" by simp
    then show ?thesis by (simp add: power2_eq_square algebra_simps)
  qed
  finally show "(2 * w)\<^sup>2 \<le> (u + v)\<^sup>2" .
  show "0 \<le> u + v" using assms(1,2) by simp
qed

lemma dot_cauchy_schwarz:
  "length a = length b \<Longrightarrow> dot a b * dot a b \<le> dot a a * dot b b"
proof (induction a b rule: list_induct2)
  case Nil
  show ?case by simp
next
  case (Cons x xs y ys)
  let ?d = "dot xs ys" and ?A = "dot xs xs" and ?B = "dot ys ys"
  have A: "0 \<le> ?A" and B: "0 \<le> ?B"
    by (rule dot_self_nonneg)+
  have "(x * y * ?d) * (x * y * ?d) = (x * x) * (y * y) * (?d * ?d)"
    by (simp add: algebra_simps)
  also have "\<dots> \<le> (x * x) * (y * y) * (?A * ?B)"
    using Cons.IH by (intro mult_left_mono) simp_all
  also have "\<dots> = (x * x * ?B) * (y * y * ?A)"
    by (simp add: algebra_simps)
  finally have "2 * (x * y * ?d) \<le> x * x * ?B + y * y * ?A"
    using A B by (intro am_gm_step) simp_all
  with Cons.IH show ?case
    by (simp add: algebra_simps)
qed

lemma cosine_bounded:
  assumes "length a = length b" and "norm2 a \<noteq> 0" and "norm2 b \<noteq> 0"
  shows "\<bar>cosine_similarity a b\<bar> \<le> 1"
proof -
  have pos: "0 < norm2 a * norm2 b"
    using assms(2,3) dot_self_nonneg [of a] dot_self_nonneg [of b]
    by (simp add: norm2_def zero_less_mult_iff less_le)
  have "(norm2 a * norm2 b)\<^sup>2 = dot a a * dot b b"
    using dot_self_nonneg [of a] dot_self_nonneg [of b]
    by (simp add: norm2_def power_mult_distrib)
  then have "(dot a b)\<^sup>2 \<le> (norm2 a * norm2 b)\<^sup>2"
    using dot_cauchy_schwarz [OF assms(1)] by (simp add: power2_eq_square)
  then have "\<bar>dot a b\<bar> \<le> norm2 a * norm2 b"
    using pos by (simp add: abs_le_square_iff [symmetric])
  with pos show ?thesis
    by (simp add: cosine_similarity_def)
qed

lemma clamp_cosine:
  assumes "length a = length b" and "norm2 a \<noteq> 0" and "norm2 b \<noteq> 0"
  shows "clamp (cosine_similarity a b) = cosine_similarity a b"
  using cosine_bounded [OF assms] by (simp add: clamp_def abs_le_iff min_def max_def)

section \<open>Claims about the capture session\<close>

text \<open>
  C4. In a session that starts from an idle hook and receives the chunks \<open>chunks\<close> in
  this order, \<^verbatim>\<open>finish\<close> assembles exactly their concatenation: that waveform is what it
  hands to \<^verbatim>\<open>computeVoicePrint\<close> and what it returns as \<^verbatim>\<open>raw\<close>. Its length is the sum
  of the chunk lengths, and sample \<open>i\<close> of chunk \<open>j\<close> sits at the offset of chunk \<open>j\<close>
  (the sum of the lengths of the chunks before it) plus \<open>i\<close>. \<^verbatim>\<open>finish\<close> returns the
  payload when the extractor returns, and raises the extractor's error otherwise.
\<close>
theorem finish_concatenates:
  assumes "\<not> isRecording s0"
  shows "assemble (framesRef (pushChunks chunks (snd (start (Granted rate) s0))))
           = Inr (concat chunks) \<and>
         fst (finish cvp (pushChunks chunks (snd (start (Granted rate) s0)))) =
           (case cvp (concat chunks) of
              Inl e \<Rightarrow> Inl e
            | Inr vp \<Rightarrow> Inr (Some \<lparr> vector = vp_vector vp, features = vp_features vp,
                                    raw = concat chunks, sampleRate = rate \<rparr>)) \<and>
         length (concat chunks) = sum_list (map length chunks) \<and>
         (\<forall>j < length chunks. \<forall>i < length (chunks ! j).
            concat chunks ! (sum_list (map length (take j chunks)) + i) = chunks ! j ! i)"
  using assms
  by (simp add: finish_session assemble_concat started_session length_concat
        concat_nth_chunk)

theorem finish_concatenates_witness:
  "\<not> isRecording (initial :: nat capture) \<and>
   fst (finish echo_extractor
          (pushChunks [[Finite 1, Finite 2], [], [Finite 3]]
             (snd (start (Granted 48000) (initial :: nat capture)))))
     = Inr (Some \<lparr> vector = [Finite 1, Finite 2, Finite 3], features = 3,
                    raw = [Finite 1, Finite 2, Finite 3], sampleRate = 48000 \<rparr>)"
proof -
  have idle: "\<not> isRecording (initial :: nat capture)"
    by (simp add: initial_def)
  from finish_concatenates [OF idle, of "[[Finite 1, Finite 2], [], [Finite 3]]" 48000
      echo_extractor]
  show ?thesis
    using idle by (simp add: echo_extractor_def computeVoicePrint_def echo_pipeline_def)
qed




text \<open>
  C5, as the code has it. The handler appends every chunk it is given, whatever its
  samples are: the earlier chunks stay in place, the new chunk is the last one,
  unchanged, and \<^verbatim>\<open>isRecording\<close> is not touched. No chunk is rejected and no error is
  raised.
\<close>
theorem onaudioprocess_appends:
  "isRecording (onaudioprocess chunk s) = isRecording s \<and>
   framesRef (onaudioprocess chunk s) = framesRef s @ [chunk] \<and>
   take (length (framesRef s)) (framesRef (onaudioprocess chunk s)) = framesRef s \<and>
   last (framesRef (onaudioprocess chunk s)) = chunk"
  by (simp add: onaudioprocess_def)

text \<open>A chunk with a NaN sample is buffered like any other.\<close>

theorem nan_chunk_is_buffered:
  "\<not> list_all is_finite [Finite 1, NaN] \<and>
   framesRef (onaudioprocess [Finite 1, NaN]
       (onaudioprocess [Finite 0] (snd (start (Granted 48000) (initial :: nat capture)))))
     = [[Finite 0], [Finite 1, NaN]]"
  by (simp add: onaudioprocess_def start_def start_with_def initial_def)



text \<open>
  C7, as the code has it. In every state \<^verbatim>\<open>stop\<close> releases the stream, the processor
  and the audio context that the refs hold, clears the three refs and leaves the hook
  idle; where every live object is the one its ref holds, nothing stays live. It does not
  clear the buffer: the chunks stay in \<^verbatim>\<open>framesRef\<close>. They are out of reach, though:
  \<^verbatim>\<open>finish\<close> on the stopped hook returns \<^verbatim>\<open>null\<close> without calling the extractor, whatever
  its closure holds, and the outcomes of every later run of operations, stale and
  overlapping calls included, are the same as if the buffer had been emptied.
\<close>
theorem stop_cancels_session:
  "mediaStreamRef (stop s) = None \<and> processorRef (stop s) = None \<and>
   audioContextRef (stop s) = None \<and> \<not> isRecording (stop s) \<and>
   liveStreams (stop s) = liveStreams s - held (mediaStreamRef s) \<and>
   connectedProcessors (stop s) = connectedProcessors s - held (processorRef s) \<and>
   openContexts (stop s) = openContexts s - held (audioContextRef s) \<and>
   (capture_inv s \<longrightarrow>
      liveStreams (stop s) = 0 \<and> connectedProcessors (stop s) = 0 \<and>
      openContexts (stop s) = 0) \<and>
   framesRef (stop s) = framesRef s \<and>
   finish_with seen cvp (stop s) = (Inr None, stop s) \<and>
   finish cvp (stop s) = (Inr None, stop s) \<and>
   fst (run cvp ops (stop s)) = fst (run cvp ops ((stop s)\<lparr>framesRef := []\<rparr>))"
proof -
  have refs: "mediaStreamRef (stop s) = None \<and> processorRef (stop s) = None \<and>
      audioContextRef (stop s) = None \<and> \<not> isRecording (stop s) \<and>
      framesRef (stop s) = framesRef s"
    by (simp add: stop_def)
  have counts: "liveStreams (stop s) = liveStreams s - held (mediaStreamRef s) \<and>
      connectedProcessors (stop s) = connectedProcessors s - held (processorRef s) \<and>
      openContexts (stop s) = openContexts s - held (audioContextRef s)"
    by (simp add: stop_def release_minus_held)
  have released: "capture_inv s \<longrightarrow>
      liveStreams (stop s) = 0 \<and> connectedProcessors (stop s) = 0 \<and>
      openContexts (stop s) = 0"
    by (simp add: stop_def capture_inv_def release_held)
  have later: "fst (run cvp ops (stop s)) = fst (run cvp ops ((stop s)\<lparr>framesRef := []\<rparr>))"
    using refs by (simp add: run_stale_frames)
  have idle: "finish cvp (stop s) = (Inr None, stop s)"
    using refs by (simp add: finish_idle)
  from refs counts released later idle show ?thesis
    by (simp add: finish_with_stopped)
qed

theorem stop_cancels_session_witness:
  "capture_inv (onaudioprocess [Finite 1, Finite 2]
      (snd (start (Granted 48000) (initial :: nat capture)))) \<and>
   liveStreams (stop (onaudioprocess [Finite 1, Finite 2]
      (snd (start (Granted 48000) (initial :: nat capture))))) = 0 \<and>
   connectedProcessors (stop (onaudioprocess [Finite 1, Finite 2]
      (snd (start (Granted 48000) (initial :: nat capture))))) = 0 \<and>
   openContexts (stop (onaudioprocess [Finite 1, Finite 2]
      (snd (start (Granted 48000) (initial :: nat capture))))) = 0 \<and>
   framesRef (stop (onaudioprocess [Finite 1, Finite 2]
      (snd (start (Granted 48000) (initial :: nat capture))))) = [[Finite 1, Finite 2]] \<and>
   finish_with True echo_extractor (stop (onaudioprocess [Finite 1, Finite 2]
      (snd (start (Granted 48000) (initial :: nat capture)))))
     = (Inr None, stop (onaudioprocess [Finite 1, Finite 2]
      (snd (start (Granted 48000) (initial :: nat capture)))))"
proof -
  let ?s = "onaudioprocess [Finite 1, Finite 2]
      (snd (start (Granted 48000) (initial :: nat capture)))"
  have inv: "capture_inv ?s"
    by (intro capture_inv_onaudioprocess capture_inv_start capture_inv_initial)
  have frames: "framesRef ?s = [[Finite 1, Finite 2]]"
    by (simp add: onaudioprocess_def start_def start_with_def initial_def)
  from stop_cancels_session [of ?s True echo_extractor "[]"] inv frames
  show ?thesis by metis
qed

text \<open>
  After \<^verbatim>\<open>stop\<close> the chunk of the abandoned session is still in the buffer; and after two
  calls of \<^verbatim>\<open>start\<close> that both passed the guard while the hook was idle, \<^verbatim>\<open>stop\<close> leaves
  the stream, the processor and the context of the first call live.
\<close>

theorem stop_keeps_buffer:
  "framesRef (stop (onaudioprocess [Finite 1, Finite 2]
      (snd (start (Granted 48000) (initial :: nat capture))))) \<noteq> [] \<and>
   liveStreams (stop (snd (start_with False (Granted 48000)
      (snd (start_with False (Granted 48000) (initial :: nat capture)))))) = 1 \<and>
   connectedProcessors (stop (snd (start_with False (Granted 48000)
      (snd (start_with False (Granted 48000) (initial :: nat capture)))))) = 1 \<and>
   openContexts (stop (snd (start_with False (Granted 48000)
      (snd (start_with False (Granted 48000) (initial :: nat capture)))))) = 1"
  by (simp add: stop_def release_def onaudioprocess_def start_def start_with_def initial_def)

section \<open>Claims about enrollment\<close>

text \<open>
  C9. For a request that passes the route's schema: when its \<^verbatim>\<open>contactId\<close> names no
  contact, the route answers 404 with \<^verbatim>\<open>Contact not found\<close> and leaves the store as it
  was, whatever \<^verbatim>\<open>storeVoiceProfile\<close> is; when it names a contact, the route answers 200
  with the profile that \<^verbatim>\<open>storeVoiceProfile\<close> stored for that contact.
\<close>
theorem register_unknown_contact:
  assumes "register_schema request = Some parsed"
  shows "(contacts store (reg_contactId parsed) = None \<longrightarrow>
            POST_register save store request
              = (Response 404 (ErrorBody ''Contact not found''), store)) \<and>
         (contacts store (reg_contactId parsed) = Some contact \<longrightarrow>
            POST_register (storeVoiceProfile now) store request
              = (Response 200 (Payload
                   \<lparr> identityId = reg_contactId parsed, profile_vector = reg_vector parsed,
                     profile_modelVersion = reg_modelVersion parsed, createdAt = now \<rparr>),
                 store\<lparr> voiceProfiles := (voiceProfiles store)(reg_contactId parsed \<mapsto>
                   \<lparr> identityId = reg_contactId parsed, profile_vector = reg_vector parsed,
                     profile_modelVersion = reg_modelVersion parsed,
                     createdAt = now \<rparr>) \<rparr>))"
  using assms
  by (simp add: POST_register_unknown POST_register_known storeVoiceProfile_def Let_def)

theorem register_unknown_contact_witness:
  "POST_register (storeVoiceProfile 7)
     \<lparr> contacts = [''c1'' \<mapsto> ()], voiceProfiles = Map.empty \<rparr>
     (JObj [(''contactId'', JStr ''c2''), (''vector'', JArr [JNum 1, JNum 0])])
     = (Response 404 (ErrorBody ''Contact not found''),
        \<lparr> contacts = [''c1'' \<mapsto> ()], voiceProfiles = Map.empty \<rparr>) \<and>
   POST_register (storeVoiceProfile 7)
     \<lparr> contacts = [''c1'' \<mapsto> ()], voiceProfiles = Map.empty \<rparr>
     (JObj [(''contactId'', JStr ''c1''), (''vector'', JArr [JNum 1, JNum 0])])
     = (Response 200 (Payload \<lparr> identityId = ''c1'', profile_vector = [1, 0],
          profile_modelVersion = ''mfcc-v1'', createdAt = 7 \<rparr>),
        \<lparr> contacts = [''c1'' \<mapsto> ()],
          voiceProfiles = [''c1'' \<mapsto> \<lparr> identityId = ''c1'', profile_vector = [1, 0],
            profile_modelVersion = ''mfcc-v1'', createdAt = 7 \<rparr>] \<rparr>)"
proof -
  let ?store = "\<lparr> contacts = [''c1'' \<mapsto> ()], voiceProfiles = Map.empty \<rparr> :: unit db"
  have parsed: "register_schema
        (JObj [(''contactId'', JStr cid), (''vector'', JArr [JNum 1, JNum 0])])
      = Some \<lparr> reg_contactId = cid, reg_vector = [1, 0], reg_recordingUrl = None,
               reg_modelVersion = ''mfcc-v1'' \<rparr>" for cid
    by (simp add: register_schema_def field_def z_required_def z_optional_def
        z_default_def)
  have unknown: "contacts ?store ''c2'' = None"
    and known: "contacts ?store ''c1'' = Some ()"
    by simp_all
  from register_unknown_contact [OF parsed [of "''c2''"],
      where store = ?store and save = "storeVoiceProfile 7" and contact = "()" and now = 7]
    register_unknown_contact [OF parsed [of "''c1''"],
      where store = ?store and save = "storeVoiceProfile 7" and contact = "()" and now = 7]
  show ?thesis
    using unknown known by simp
qed

text \<open>
  C10. For a known contact the route accepts a \<^verbatim>\<open>vector\<close> field that is any array of
  JSON numbers, of any length, the empty array included, whatever profile the contact
  had before: it hands exactly that vector to \<^verbatim>\<open>storeVoiceProfile\<close>, with the model
  version \<^verbatim>\<open>mfcc-v1\<close> when the request has none, and answers with what it stored. With a
  store that saves as section 4.3 says, the profile is stored.
\<close>
theorem register_accepts_any_vector:
  assumes "field ''contactId'' kvs = Some (JStr cid)"
    and "field ''vector'' kvs = Some (JArr (map JNum v))"
    and "field ''recordingUrl'' kvs = map_option JStr url"
    and "field ''modelVersion'' kvs = map_option JStr mv"
    and "contacts store cid = Some contact"
  shows "POST_register save store (JObj kvs) =
           (case save \<lparr> reg_contactId = cid, reg_vector = v, reg_recordingUrl = url,
                    reg_modelVersion = (case mv of None \<Rightarrow> ''mfcc-v1'' | Some m \<Rightarrow> m) \<rparr>
                  store of
              (Inr profile, store') \<Rightarrow> (Response 200 (Payload profile), store')
            | (Inl e, store') \<Rightarrow>
                (Response 500 (ErrorBody ''Failed to register voice profile''), store')) \<and>
         POST_register (storeVoiceProfile now) store (JObj kvs) =
           (Response 200 (Payload
              \<lparr> identityId = cid, profile_vector = v,
                profile_modelVersion = (case mv of None \<Rightarrow> ''mfcc-v1'' | Some m \<Rightarrow> m),
                createdAt = now \<rparr>),
            store\<lparr> voiceProfiles := (voiceProfiles store)(cid \<mapsto>
              \<lparr> identityId = cid, profile_vector = v,
                profile_modelVersion = (case mv of None \<Rightarrow> ''mfcc-v1'' | Some m \<Rightarrow> m),
                createdAt = now \<rparr>) \<rparr>)"
proof -
  let ?parsed = "\<lparr> reg_contactId = cid, reg_vector = v, reg_recordingUrl = url,
      reg_modelVersion = (case mv of None \<Rightarrow> ''mfcc-v1'' | Some m \<Rightarrow> m) \<rparr>"
  have parsed: "register_schema (JObj kvs) = Some ?parsed"
    using assms(1-4) by (rule register_schema_accepts)
  have known: "contacts store (reg_contactId ?parsed) = Some contact"
    using assms(5) by simp
  show ?thesis
    using POST_register_known [OF parsed known]
    by (simp add: storeVoiceProfile_def Let_def)
qed

theorem register_accepts_any_vector_witness:
  "POST_register (storeVoiceProfile 7)
     \<lparr> contacts = [''c1'' \<mapsto> ()],
       voiceProfiles = [''c1'' \<mapsto> \<lparr> identityId = ''c1'', profile_vector = [1, 2, 3],
          profile_modelVersion = ''other-v2'', createdAt = 0 \<rparr>] \<rparr>
     (JObj [(''contactId'', JStr ''c1''), (''vector'', JArr [])])
   = (Response 200 (Payload \<lparr> identityId = ''c1'', profile_vector = [],
          profile_modelVersion = ''mfcc-v1'', createdAt = 7 \<rparr>),
      \<lparr> contacts = [''c1'' \<mapsto> ()],
        voiceProfiles = [''c1'' \<mapsto> \<lparr> identityId = ''c1'', profile_vector = [],
          profile_modelVersion = ''mfcc-v1'', createdAt = 7 \<rparr>] \<rparr>)"
proof -
  let ?kvs = "[(''contactId'', JStr ''c1''), (''vector'', JArr [])]"
  let ?store = "\<lparr> contacts = [''c1'' \<mapsto> ()],
       voiceProfiles = [''c1'' \<mapsto> \<lparr> identityId = ''c1'', profile_vector = [1, 2, 3],
          profile_modelVersion = ''other-v2'', createdAt = 0 \<rparr>] \<rparr>"
  have f1: "field ''contactId'' ?kvs = Some (JStr ''c1'')"
    and f2: "field ''vector'' ?kvs = Some (JArr (map JNum []))"
    and f3: "field ''recordingUrl'' ?kvs = map_option JStr None"
    and f4: "field ''modelVersion'' ?kvs = map_option JStr None"
    by (simp_all add: field_def)
  have known: "contacts ?store ''c1'' = Some ()"
    by simp
  from register_accepts_any_vector [OF f1 f2 f3 f4 known,
      where save = "storeVoiceProfile 7" and now = 7]
  have "POST_register (storeVoiceProfile 7) ?store (JObj ?kvs) =
      (Response 200 (Payload
         \<lparr> identityId = ''c1'', profile_vector = [],
           profile_modelVersion = (case None of None \<Rightarrow> ''mfcc-v1'' | Some m \<Rightarrow> m),
           createdAt = 7 \<rparr>),
       ?store\<lparr> voiceProfiles := (voiceProfiles ?store)(''c1'' \<mapsto>
         \<lparr> identityId = ''c1'', profile_vector = [],
           profile_modelVersion = (case None of None \<Rightarrow> ''mfcc-v1'' | Some m \<Rightarrow> m),
           createdAt = 7 \<rparr>) \<rparr>)"
    by (rule conjunct2)
  then show ?thesis by simp
qed

section \<open>Claims about verification\<close>




text \<open>
  C2. For a candidate vector and a stored vector of different lengths, \<^verbatim>\<open>verify\<close> fails
  with \<^verbatim>\<open>VectorDimensionMismatchError\<close> and returns no result, so no score: neither
  vector is cut or padded to the length of the other.
\<close>
theorem verify_dimension_mismatch:
  assumes "length a \<noteq> length (profile_vector p)"
  shows "verify a p t = Inl VectorDimensionMismatchError \<and>
         (\<forall>r. verify a p t \<noteq> Inr r)"
  using assms by (simp add: verify_def)

theorem verify_dimension_mismatch_witness:
  "length [1, 0, 5 :: real] \<noteq> length [1, 0 :: real] \<and>
   verify [1, 0, 5]
     \<lparr> identityId = ''id-1'', profile_vector = [1, 0], profile_modelVersion = ''mfcc-v1'',
       createdAt = 0 \<rparr> None = Inl VectorDimensionMismatchError \<and>
   verify [1, 0]
     \<lparr> identityId = ''id-1'', profile_vector = [1, 0, 0], profile_modelVersion = ''mfcc-v1'',
       createdAt = 0 \<rparr> None = Inl VectorDimensionMismatchError"
proof -
  let ?p = "\<lparr> identityId = ''id-1'', profile_vector = [1, 0],
      profile_modelVersion = ''mfcc-v1'', createdAt = 0 \<rparr>"
  let ?q = "\<lparr> identityId = ''id-1'', profile_vector = [1, 0, 0],
      profile_modelVersion = ''mfcc-v1'', createdAt = 0 \<rparr>"
  have longer: "length [1, 0, 5 :: real] \<noteq> length (profile_vector ?p)"
    and shorter: "length [1, 0 :: real] \<noteq> length (profile_vector ?q)"
    by simp_all
  from verify_dimension_mismatch [OF longer, of None]
    verify_dimension_mismatch [OF shorter, of None]
  show ?thesis by simp
qed

end
